theory Spec2Isabelle
  imports Complex_Main "HOL-Library.Word" "HOL-Library.Sublist"
begin

section \<open>JavaScript strings\<close>

text \<open>
  A JavaScript string is a sequence of 16-bit code units. The source's literals are
  ASCII apart from five emoji, each of which is a surrogate pair of two code units.
  \<open>str\<close> embeds an ASCII literal; \<open>+\<close> on strings is list append.
\<close>

type_synonym jsstring = "16 word list"

definition str :: "string \<Rightarrow> jsstring" where
  "str s = map (\<lambda>c. of_nat (of_char c)) s"

text \<open>U+1F449 and U+1F448 (pointing hands), U+1F4BB (laptop), U+1F914 (thinking face),
  U+1F3DE (national park), as UTF-16.\<close>

definition point_right :: jsstring where "point_right = [0xD83D, 0xDC49]"
definition point_left :: jsstring where "point_left = [0xD83D, 0xDC48]"
definition laptop :: jsstring where "laptop = [0xD83D, 0xDCBB]"
definition thinking :: jsstring where "thinking = [0xD83E, 0xDD14]"
definition national_park :: jsstring where "national_park = [0xD83C, 0xDFDE]"

text \<open>
  \<open>String.prototype.indexOf(searchString)\<close>: the least position at which \<open>searchString\<close> occurs,
  or \<open>-1\<close> when it occurs nowhere. The empty string occurs at position 0.
\<close>

fun indexOf_from :: "int \<Rightarrow> 'a list \<Rightarrow> 'a list \<Rightarrow> int" where
  "indexOf_from k [] searchString = (if searchString = [] then k else - 1)"
| "indexOf_from k (c # cs) searchString =
     (if prefix searchString (c # cs) then k else indexOf_from (k + 1) cs searchString)"

definition indexOf :: "'a list \<Rightarrow> 'a list \<Rightarrow> int" where
  "indexOf s searchString = indexOf_from 0 s searchString"

text \<open>
  \<open>String.prototype.toUpperCase\<close> on the ASCII letters: \<open>a\<close>..\<open>z\<close> go to \<open>A\<close>..\<open>Z\<close>.
  Other code units are left as they are, which is what ECMAScript does on the rest of
  ASCII; the source applies the function to its seven ASCII park codes only.
\<close>

definition upper_unit :: "16 word \<Rightarrow> 16 word" where
  "upper_unit c = (if 97 \<le> unat c \<and> unat c \<le> 122 then c - 32 else c)"

definition toUpperCase :: "jsstring \<Rightarrow> jsstring" where
  "toUpperCase s = map upper_unit s"

section \<open>Constants of the client\<close>

definition HYPERDEV_ICON :: jsstring where
  "HYPERDEV_ICON = str ''https://cdn.hyperdev.com/us-east-1%3A3d31b21c-01a0-4da2-8827-4bc6e88b7618%2Fhyperdev.svg''"

definition GRAY_ICON :: jsstring where
  "GRAY_ICON = str ''https://cdn.hyperdev.com/us-east-1%3A3d31b21c-01a0-4da2-8827-4bc6e88b7618%2Ficon-gray.svg''"

definition WHITE_ICON :: jsstring where
  "WHITE_ICON = str ''https://cdn.hyperdev.com/us-east-1%3A3d31b21c-01a0-4da2-8827-4bc6e88b7618%2Ficon-white.svg''"

section \<open>Promises\<close>

text \<open>
  A promise is pending until it is settled, and the first call of \<open>resolve\<close> or
  \<open>reject\<close> settles it for good; later calls are ignored. A promise is modelled by the
  calls made on it, in order, and its state is computed from them. A promise that the
  host never settles has no call and stays \<open>Pending\<close>.
\<close>

datatype 'a action = Resolve 'a | Reject jsstring

datatype 'a settlement = Pending | Fulfilled 'a | Rejected jsstring

datatype 'a promise = Promise (calls_of: "'a action list")

fun settle :: "'a settlement \<Rightarrow> 'a action \<Rightarrow> 'a settlement" where
  "settle Pending (Resolve v) = Fulfilled v"
| "settle Pending (Reject e) = Rejected e"
| "settle s _ = s"

definition state :: "'a promise \<Rightarrow> 'a settlement" where
  "state p = foldl settle Pending (calls_of p)"

text \<open>
  \<open>new Promise(executor)\<close> runs the executor at once, handing it \<open>resolve\<close>; the
  executor is modelled by the list of calls it makes.
\<close>

definition new_Promise :: "(('a \<Rightarrow> 'a action) \<Rightarrow> 'a action list) \<Rightarrow> 'a promise" where
  "new_Promise executor = Promise (executor Resolve)"

section \<open>The host: context handle and effects\<close>

record sign_args =
  arg :: jsstring

record card_data =
  card_name :: jsstring

text \<open>
  The context handle \<open>t\<close> given to a capability handler. \<open>card\<close> is the host's answer to
  \<open>t.card(fields)\<close>, \<open>signUrl\<close> the host's URL signing.
\<close>

record context_handle =
  card :: "jsstring list \<Rightarrow> card_data promise"
  signUrl :: "jsstring \<Rightarrow> sign_args \<Rightarrow> jsstring"

section \<open>attachment-sections\<close>

record attachment =
  url :: jsstring

record 'a sections_options =
  entries :: "'a attachment_scheme list"

record section_content =
  content_type :: jsstring
  content_url :: jsstring
  content_height :: int

record 'a section_descriptor =
  section_id :: jsstring
  claimed :: "'a attachment_scheme list"
  section_icon :: jsstring
  section_title :: jsstring
  content :: section_content

definition yell_prefix :: jsstring where
  "yell_prefix = str ''http://www.nps.gov/yell/''"

definition claims :: "'a attachment_scheme \<Rightarrow> bool" where
  "claims attachment = (indexOf (url attachment) yell_prefix = 0)"

definition attachment_sections ::
  "context_handle \<Rightarrow> 'a sections_options \<Rightarrow> 'a section_descriptor list" where
  "attachment_sections t options =
     (let claimed = filter claims (entries options) in
      if length claimed > 0 then
        [\<lparr> section_id = str ''Yellowstone'',
           claimed = claimed,
           section_icon = HYPERDEV_ICON,
           section_title = str ''Example Attachment Section: Yellowstone'',
           content = \<lparr> content_type = str ''iframe'',
                       content_url = signUrl t (str ''./section.html'')
                         \<lparr> arg = str ''you can pass your section args here'' \<rparr>,
                       content_height = 230 \<rparr> \<rparr>]
      else [])"

section \<open>Numbers, randomness and the console\<close>

text \<open>
  A value that may be \<open>undefined\<close> or \<open>null\<close>. Reading an array at an index outside
  it gives \<open>undefined\<close>.
\<close>

datatype 'a js = Undefined | Null | Val 'a

definition array_get :: "'a list \<Rightarrow> int \<Rightarrow> 'a js" where
  "array_get xs i = (if 0 \<le> i \<and> i < int (length xs) then Val (xs ! nat i) else Undefined)"

text \<open>
  The effects a handler or a callback can have: lines written to the console, draws
  from \<open>Math.random\<close> (the source of randomness is the sequence of numbers it will
  return), and the user-interface calls made on the host, in order.
  A number is the real that the double denotes. The product of a double by 4 in
  \<open>randomBadgeColor\<close> is a double again, so it is exact; the product by 100 is
  rounded to a double, by \<open>double_times\<close> below.
\<close>

record rand_args =
  rand :: jsstring

record overlay_options =
  overlay_url :: jsstring
  overlay_args :: rand_args

record bar_options =
  bar_url :: jsstring
  bar_height :: int

record attach_options =
  attach_url :: jsstring
  attach_name :: jsstring

datatype ui_call =
  Overlay overlay_options | BoardBar bar_options | ClosePopup | Attach attach_options

record world =
  console :: "jsstring list"
  random :: "nat \<Rightarrow> real"
  ui_calls :: "ui_call list"

definition console_log :: "jsstring \<Rightarrow> world \<Rightarrow> world" where
  "console_log msg w = w\<lparr> console := console w @ [msg] \<rparr>"

definition Math_random :: "world \<Rightarrow> real \<times> world" where
  "Math_random w = (random w 0, w\<lparr> random := (\<lambda>n. random w (Suc n)) \<rparr>)"

text \<open>
  Rounding to binary64, to the nearest double and to the even one on a tie (below the
  overflow threshold). \<open>binade x\<close> is the exponent \<open>e\<close> with \<open>2^e \<le> x < 2^(e+1)\<close> for a
  positive \<open>x\<close>; doubles in that binade are \<open>2^(e-52)\<close> apart, and the subnormal ones
  are spaced as those of exponent \<open>-1022\<close>.
\<close>

function bit_length :: "int \<Rightarrow> int" where
  "bit_length n = (if n \<le> 0 then 0 else bit_length (n div 2) + 1)"
  by pat_completeness auto
termination
  by (relation "measure nat") auto

definition binade :: "real \<Rightarrow> int" where
  "binade x = (if 1 \<le> x then bit_length \<lfloor>x\<rfloor> - 1 else - bit_length (\<lceil>1 / x\<rceil> - 1))"

definition pow2 :: "int \<Rightarrow> real" where
  "pow2 k = (if 0 \<le> k then 2 ^ nat k else 1 / 2 ^ nat (- k))"

definition round_half_even :: "real \<Rightarrow> int" where
  "round_half_even y =
     (let f = \<lfloor>y\<rfloor> in
      if y - of_int f < 1 / 2 then f
      else if 1 / 2 < y - of_int f then f + 1
      else if even f then f else f + 1)"

definition to_double :: "real \<Rightarrow> real" where
  "to_double x =
     (if x = 0 then 0
      else let u = pow2 (max (binade \<bar>x\<bar>) (- 1022) - 52)
           in sgn x * of_int (round_half_even (\<bar>x\<bar> / u)) * u)"

definition double_times :: "real \<Rightarrow> real \<Rightarrow> real" where
  "double_times x y = to_double (x * y)"

fun decimal :: "nat \<Rightarrow> jsstring" where
  "decimal n = (if n < 10 then [of_nat (48 + n)]
                else decimal (n div 10) @ [of_nat (48 + n mod 10)])"

text \<open>
  \<open>x.toFixed(0)\<close>: the integer nearest to \<open>x\<close>, the larger one on a tie, in decimal
  (for \<open>x\<close> below \<open>10^21\<close>, which every product of a random draw by 100 is).
\<close>

definition toFixed0 :: "real \<Rightarrow> jsstring" where
  "toFixed0 x = (if x < 0 then str ''-'' @ decimal (nat \<lfloor>- x + 1 / 2\<rfloor>)
                 else decimal (nat \<lfloor>x + 1 / 2\<rfloor>))"

text \<open>
  \<open>p.then(f)\<close>: when \<open>p\<close> is fulfilled, \<open>f\<close> runs on its value and the new promise takes
  the result; a rejection is passed on and \<open>f\<close> does not run; while \<open>p\<close> is pending
  nothing happens. \<open>then_value\<close> is for an \<open>f\<close> that returns a plain value,
  \<open>then_promise\<close> for one that returns a promise, which the new promise follows.
  \<open>promise_get\<close> is Bluebird's \<open>p.get(property)\<close>.
\<close>

definition then_value ::
  "'a promise \<Rightarrow> ('a \<Rightarrow> world \<Rightarrow> 'b \<times> world) \<Rightarrow> world \<Rightarrow> 'b promise \<times> world" where
  "then_value p f w =
     (case state p of
        Fulfilled v \<Rightarrow> (let (r, w') = f v w in (Promise [Resolve r], w'))
      | Rejected e \<Rightarrow> (Promise [Reject e], w)
      | Pending \<Rightarrow> (Promise [], w))"

definition then_promise ::
  "'a promise \<Rightarrow> ('a \<Rightarrow> world \<Rightarrow> 'b promise \<times> world) \<Rightarrow> world \<Rightarrow> 'b promise \<times> world" where
  "then_promise p f w =
     (case state p of
        Fulfilled v \<Rightarrow> f v w
      | Rejected e \<Rightarrow> (Promise [Reject e], w)
      | Pending \<Rightarrow> (Promise [], w))"

definition promise_get :: "'a promise \<Rightarrow> ('a \<Rightarrow> 'b) \<Rightarrow> 'b promise" where
  "promise_get p property =
     (case state p of
        Fulfilled v \<Rightarrow> Promise [Resolve (property v)]
      | Rejected e \<Rightarrow> Promise [Reject e]
      | Pending \<Rightarrow> Promise [])"

section \<open>Popups\<close>

text \<open>
  The context handle given to the callback of a popup item: how the host settles the
  promise of each user-interface call. The calls themselves are recorded in the world.
\<close>

record popup_context =
  attach :: "attach_options \<Rightarrow> unit promise"
  overlay :: "overlay_options \<Rightarrow> unit promise"
  boardBar :: "bar_options \<Rightarrow> unit promise"
  closePopup :: "unit promise"

definition t_attach :: "popup_context \<Rightarrow> attach_options \<Rightarrow> world \<Rightarrow> unit promise \<times> world" where
  "t_attach t opts w = (attach t opts, w\<lparr> ui_calls := ui_calls w @ [Attach opts] \<rparr>)"

definition t_overlay :: "popup_context \<Rightarrow> overlay_options \<Rightarrow> world \<Rightarrow> unit promise \<times> world" where
  "t_overlay t opts w = (overlay t opts, w\<lparr> ui_calls := ui_calls w @ [Overlay opts] \<rparr>)"

definition t_boardBar :: "popup_context \<Rightarrow> bar_options \<Rightarrow> world \<Rightarrow> unit promise \<times> world" where
  "t_boardBar t opts w = (boardBar t opts, w\<lparr> ui_calls := ui_calls w @ [BoardBar opts] \<rparr>)"

definition t_closePopup :: "popup_context \<Rightarrow> world \<Rightarrow> unit promise \<times> world" where
  "t_closePopup t w = (closePopup t, w\<lparr> ui_calls := ui_calls w @ [ClosePopup] \<rparr>)"

record popup_item =
  item_text :: jsstring
  item_url :: "jsstring option"
  item_callback :: "popup_context \<Rightarrow> world \<Rightarrow> unit promise \<times> world"

record search_options =
  search_count :: int
  search_placeholder :: jsstring
  search_empty :: jsstring

record popup_options =
  popup_title :: jsstring
  popup_items :: "popup_item list option"
  popup_search :: "search_options option"
  popup_url :: "jsstring option"
  popup_height :: "int option"

text \<open>\<open>t.popup(options)\<close> asks the host to open a popup; the request is the result.\<close>

datatype ui_request = OpenPopup popup_options

definition popup :: "'t \<Rightarrow> popup_options \<Rightarrow> ui_request" where
  "popup t opts = OpenPopup opts"

section \<open>Badges\<close>

text \<open>
  The object a dynamic badge returns on each refresh, and the badge descriptor itself.
  A property that a descriptor does not have is \<open>None\<close>; \<open>badge_color\<close> is
  \<open>Undefined\<close> when absent, since the source also sets it to \<open>null\<close>.
\<close>

record badge_data =
  data_title :: jsstring
  data_text :: jsstring
  data_icon :: jsstring
  data_color :: "jsstring js"
  refresh :: int

record badge =
  dynamic :: "(world \<Rightarrow> badge_data \<times> world) option"
  badge_title :: "jsstring option"
  badge_text :: "jsstring option"
  badge_icon :: "jsstring option"
  badge_color :: "jsstring js"
  badge_callback :: "(context_handle \<Rightarrow> ui_request) option"
  badge_url :: "jsstring option"
  badge_target :: "jsstring option"

definition randomBadgeColor :: "world \<Rightarrow> jsstring js \<times> world" where
  "randomBadgeColor w =
     (let (r, w') = Math_random w in
      (array_get [str ''green'', str ''yellow'', str ''red'', str ''none''] \<lfloor>r * 4\<rfloor>, w'))"

text \<open>The function under \<open>dynamic\<close>: the text draws first, then the color.\<close>

definition dynamic_badge :: "world \<Rightarrow> badge_data \<times> world" where
  "dynamic_badge w =
     (let (r, w1) = Math_random w;
          text = str ''Dynamic '' @ toFixed0 (double_times r 100);
          (color, w2) = randomBadgeColor w1
      in (\<lparr> data_title = str ''Detail Badge'',
             data_text = text,
             data_icon = HYPERDEV_ICON,
             data_color = color,
             refresh = 10 \<rparr>, w2))"

definition badge_popup_callback :: "context_handle \<Rightarrow> ui_request" where
  "badge_popup_callback context_arg =
     popup context_arg
       \<lparr> popup_title = str ''Card Detail Badge Popup'',
         popup_items = None,
         popup_search = None,
         popup_url = Some (str ''./settings.html''),
         popup_height = Some 184 \<rparr>"

definition badges :: "badge list" where
  "badges =
     [\<lparr> dynamic = Some dynamic_badge,
         badge_title = None, badge_text = None, badge_icon = None,
         badge_color = Undefined, badge_callback = None,
         badge_url = None, badge_target = None \<rparr>,
      \<lparr> dynamic = None,
         badge_title = Some (str ''Detail Badge''),
         badge_text = Some (str ''Static''),
         badge_icon = Some HYPERDEV_ICON,
         badge_color = Null, badge_callback = None,
         badge_url = None, badge_target = None \<rparr>,
      \<lparr> dynamic = None,
         badge_title = Some (str ''Popup Detail Badge''),
         badge_text = Some (str ''Popup''),
         badge_icon = Some HYPERDEV_ICON,
         badge_color = Undefined,
         badge_callback = Some badge_popup_callback,
         badge_url = None, badge_target = None \<rparr>,
      \<lparr> dynamic = None,
         badge_title = Some (str ''URL Detail Badge''),
         badge_text = Some (str ''URL''),
         badge_icon = Some HYPERDEV_ICON,
         badge_color = Undefined, badge_callback = None,
         badge_url = Some (str ''https://trello.com/home''),
         badge_target = Some (str ''Trello Landing Page'') \<rparr>]"

text \<open>
  \<open>getBadges\<close>: ask the host for the card's name, and once it has come, log it and
  answer with the four badges.
\<close>

definition getBadges :: "context_handle \<Rightarrow> world \<Rightarrow> badge list promise \<times> world" where
  "getBadges t w =
     then_value (promise_get (card t [str ''name'']) card_name)
       (\<lambda>cardName w'.
          (badges, console_log (str ''We just loaded the card name for fun: '' @ cardName) w'))
       w"

definition card_badges :: "context_handle \<Rightarrow> 'o \<Rightarrow> world \<Rightarrow> badge list promise \<times> world" where
  "card_badges t options = getBadges t"

definition card_detail_badges ::
  "context_handle \<Rightarrow> 'o \<Rightarrow> world \<Rightarrow> badge list promise \<times> world" where
  "card_detail_badges t options = getBadges t"

section \<open>Buttons and their popups\<close>

definition open_overlay_callback :: "popup_context \<Rightarrow> world \<Rightarrow> unit promise \<times> world" where
  "open_overlay_callback t w =
     (let (r, w1) = Math_random w;
          (p, w2) = t_overlay t \<lparr> overlay_url = str ''./overlay.html'',
                                  overlay_args = \<lparr> rand = toFixed0 (double_times r 100) \<rparr> \<rparr> w1
      in then_promise p (\<lambda>_. t_closePopup t) w2)"

definition open_board_bar_callback :: "popup_context \<Rightarrow> world \<Rightarrow> unit promise \<times> world" where
  "open_board_bar_callback t w =
     (let (p, w1) = t_boardBar t \<lparr> bar_url = str ''./board-bar.html'', bar_height = 200 \<rparr> w
      in then_promise p (\<lambda>_. t_closePopup t) w1)"

definition boardButtonCallback :: "context_handle \<Rightarrow> ui_request" where
  "boardButtonCallback t =
     popup t
       \<lparr> popup_title = str ''Popup List Example'',
         popup_items = Some
           [\<lparr> item_text = str ''Open Overlay'', item_url = None,
               item_callback = open_overlay_callback \<rparr>,
            \<lparr> item_text = str ''Open Board Bar'', item_url = None,
               item_callback = open_board_bar_callback \<rparr>],
         popup_search = None,
         popup_url = None,
         popup_height = None \<rparr>"

definition parkCodes :: "jsstring list" where
  "parkCodes = [str ''acad'', str ''arch'', str ''badl'', str ''crla'', str ''grca'',
                str ''yell'', str ''yose'']"

text \<open>The function mapped over the park codes, and the callback of the item it builds.\<close>

definition park_callback ::
  "jsstring \<Rightarrow> jsstring \<Rightarrow> popup_context \<Rightarrow> world \<Rightarrow> unit promise \<times> world" where
  "park_callback urlForCode nameForCode t w =
     (let (p, w1) = t_attach t \<lparr> attach_url = urlForCode, attach_name = nameForCode \<rparr> w
      in then_promise p (\<lambda>_. t_closePopup t) w1)"

definition park_item :: "jsstring \<Rightarrow> popup_item" where
  "park_item parkCode =
     (let urlForCode = str ''http://www.nps.gov/'' @ parkCode @ str ''/'';
          nameForCode = national_park @ str '' '' @ toUpperCase parkCode
      in \<lparr> item_text = nameForCode,
            item_url = Some urlForCode,
            item_callback = park_callback urlForCode nameForCode \<rparr>)"

definition cardButtonCallback :: "context_handle \<Rightarrow> ui_request" where
  "cardButtonCallback t =
     (let items = map park_item parkCodes
      in popup t
           \<lparr> popup_title = str ''Popup Search Example'',
             popup_items = Some items,
             popup_search = Some \<lparr> search_count = 5,
                                   search_placeholder = str ''Search National Parks'',
                                   search_empty = str ''No parks found'' \<rparr>,
             popup_url = None,
             popup_height = None \<rparr>)"

record button =
  button_icon :: jsstring
  button_text :: jsstring
  button_callback :: "(context_handle \<Rightarrow> ui_request) option"
  button_url :: "jsstring option"
  button_target :: "jsstring option"

definition board_buttons :: "context_handle \<Rightarrow> 'o \<Rightarrow> button list" where
  "board_buttons t options =
     [\<lparr> button_icon = WHITE_ICON, button_text = str ''Popup'',
         button_callback = Some boardButtonCallback,
         button_url = None, button_target = None \<rparr>,
      \<lparr> button_icon = WHITE_ICON, button_text = str ''URL'',
         button_callback = None,
         button_url = Some (str ''https://trello.com/inspiration''),
         button_target = Some (str ''Inspiring Boards'') \<rparr>]"

definition card_buttons :: "context_handle \<Rightarrow> 'o \<Rightarrow> button list" where
  "card_buttons t options =
     [\<lparr> button_icon = GRAY_ICON, button_text = str ''Open Popup'',
         button_callback = Some cardButtonCallback,
         button_url = None, button_target = None \<rparr>,
      \<lparr> button_icon = GRAY_ICON, button_text = str ''Just a URL'',
         button_callback = None,
         button_url = Some (str ''https://developers.trello.com''),
         button_target = Some (str ''Trello Developer Site'') \<rparr>]"

section \<open>Handlers on a URL, and authorization\<close>

text \<open>
  A handler on a URL either answers with a descriptor or declines by throwing
  \<open>t.NotHandled()\<close>. In the source the three \<open>throw\<close> statements are commented out.
\<close>

datatype 'a response = Descriptor 'a | NotHandled

record url_options =
  options_url :: jsstring

record thumbnail_image =
  image_url :: jsstring
  logo :: bool

record thumbnail =
  thumbnail_url :: jsstring
  thumbnail_title :: jsstring
  image :: thumbnail_image
  openText :: jsstring

record card_stub =
  name :: jsstring
  desc :: jsstring

record formatted_url =
  format_icon :: jsstring
  format_text :: jsstring

record authorization =
  authorized :: bool

definition attachment_thumbnail :: "context_handle \<Rightarrow> url_options \<Rightarrow> thumbnail response" where
  "attachment_thumbnail t options =
     Descriptor
       \<lparr> thumbnail_url = options_url options,
         thumbnail_title = point_right @ str '' '' @ options_url options @ str '' '' @ point_left,
         image = \<lparr> image_url = HYPERDEV_ICON, logo = True \<rparr>,
         openText = str ''Open Sesame'' \<rparr>"

definition authorization_status :: "context_handle \<Rightarrow> 'o \<Rightarrow> authorization promise" where
  "authorization_status t options =
     new_Promise (\<lambda>resolve. [resolve \<lparr> authorized = True \<rparr>])"

definition card_from_url :: "context_handle \<Rightarrow> url_options \<Rightarrow> card_stub promise response" where
  "card_from_url t options =
     Descriptor
       (new_Promise (\<lambda>resolve.
          [resolve \<lparr> name = laptop @ str '' '' @ options_url options @ str '' '' @ thinking,
                     desc = str ''This Power-Up knows cool things about the attached url'' \<rparr>]))"

definition format_url :: "context_handle \<Rightarrow> url_options \<Rightarrow> formatted_url response" where
  "format_url t options =
     Descriptor
       \<lparr> format_icon = GRAY_ICON,
         format_text = point_right @ str '' '' @ options_url options @ str '' '' @ point_left \<rparr>"

definition show_authorization :: "context_handle \<Rightarrow> 'o \<Rightarrow> ui_request" where
  "show_authorization t options =
     popup t
       \<lparr> popup_title = str ''My Auth Popup'',
         popup_items = None,
         popup_search = None,
         popup_url = Some (str ''./authorize.html''),
         popup_height = Some 140 \<rparr>"

definition show_settings :: "context_handle \<Rightarrow> 'o \<Rightarrow> ui_request" where
  "show_settings t options =
     popup t
       \<lparr> popup_title = str ''Settings'',
         popup_items = None,
         popup_search = None,
         popup_url = Some (str ''./settings.html''),
         popup_height = Some 184 \<rparr>"

section \<open>Reading descriptors\<close>

text \<open>
  The two variants of a button descriptor, in the words of the specification: a
  callback button has a callback and neither URL nor target, a link button has a URL
  (its target is optional) and no callback.
\<close>

definition callback_button :: "button \<Rightarrow> bool" where
  "callback_button b \<longleftrightarrow>
     button_callback b \<noteq> None \<and> button_url b = None \<and> button_target b = None"

definition link_button :: "button \<Rightarrow> bool" where
  "link_button b \<longleftrightarrow> button_url b \<noteq> None \<and> button_callback b = None"

text \<open>The items of the popup that a request opens (none for a popup showing a page).\<close>

definition catalog :: "ui_request \<Rightarrow> popup_item list" where
  "catalog r =
     (case r of OpenPopup opts \<Rightarrow> (case popup_items opts of None \<Rightarrow> [] | Some its \<Rightarrow> its))"

section \<open>Sample inputs\<close>

text \<open>A host that never answers \<open>t.card\<close> and signs a URL by leaving it as it is.\<close>

definition host0 :: context_handle where
  "host0 = \<lparr> card = (\<lambda>fields. Promise []), signUrl = (\<lambda>u a. u) \<rparr>"

text \<open>A world with an empty console, no call made yet, and every random draw \<open>1/2\<close>.\<close>

definition world0 :: world where
  "world0 = \<lparr> console = [], random = (\<lambda>n. 1 / 2), ui_calls = [] \<rparr>"

text \<open>A host that answers \<open>t.card\<close> with a card of the given name.\<close>

definition host_named :: "jsstring \<Rightarrow> context_handle" where
  "host_named n = \<lparr> card = (\<lambda>fields. Promise [Resolve \<lparr> card_name = n \<rparr>]),
                    signUrl = (\<lambda>u a. u) \<rparr>"

text \<open>A host that completes every user-interface call of a popup item.\<close>

definition popup_host0 :: popup_context where
  "popup_host0 = \<lparr> attach = (\<lambda>opts. Promise [Resolve ()]),
                    overlay = (\<lambda>opts. Promise [Resolve ()]),
                    boardBar = (\<lambda>opts. Promise [Resolve ()]),
                    closePopup = Promise [Resolve ()] \<rparr>"

text \<open>A world whose every random draw is the double nearest to \<open>0.015\<close>.\<close>

definition world015 :: world where
  "world015 = \<lparr> console = [], random = (\<lambda>n. 1080863910568919 / 72057594037927936),
                 ui_calls = [] \<rparr>"

section \<open>Facts about strings\<close>

lemma indexOf_from_range:
  "0 \<le> k \<Longrightarrow> indexOf_from k s searchString = - 1 \<or> k \<le> indexOf_from k s searchString"
proof (induction s arbitrary: k)
  case Nil
  then show ?case by simp
next
  case (Cons c cs)
  from Cons.IH [of "k + 1"] Cons.prems show ?case by auto
qed

lemma indexOf_from_hit:
  assumes "0 \<le> k"
  shows "indexOf_from k s searchString = k \<longleftrightarrow> prefix searchString s"
proof (cases s)
  case Nil
  with assms show ?thesis by auto
next
  case (Cons c cs)
  from assms indexOf_from_range [of "k + 1" cs searchString]
  have "indexOf_from (k + 1) cs searchString \<noteq> k" by auto
  with Cons show ?thesis by simp
qed

lemma indexOf_zero_iff_prefix: "indexOf s searchString = 0 \<longleftrightarrow> prefix searchString s"
  by (simp add: indexOf_def indexOf_from_hit)

lemma claims_iff_prefix: "claims a \<longleftrightarrow> prefix yell_prefix (url a)"
  by (simp add: claims_def indexOf_zero_iff_prefix)

section \<open>attachment-sections claims the Yellowstone attachments\<close>

lemma claimed_sections:
  "attachment_sections t options =
     (if filter claims (entries options) = [] then []
      else [\<lparr> section_id = str ''Yellowstone'',
              claimed = filter claims (entries options),
              section_icon = HYPERDEV_ICON,
              section_title = str ''Example Attachment Section: Yellowstone'',
              content = \<lparr> content_type = str ''iframe'',
                          content_url = signUrl t (str ''./section.html'')
                            \<lparr> arg = str ''you can pass your section args here'' \<rparr>,
                          content_height = 230 \<rparr> \<rparr>])"
  by (simp add: attachment_sections_def Let_def)

lemma section_members:
  "s \<in> set (attachment_sections t options) \<Longrightarrow>
   set (claimed s) = {a \<in> set (entries options). prefix yell_prefix (url a)}"
  by (auto simp: claimed_sections claims_iff_prefix split: if_splits)

text \<open>
  Claim C1. Whatever the list of attachments in \<open>options.entries\<close>, every member of
  the \<open>claimed\<close> list of a returned section is one of the entries and has a URL that
  begins with \<open>http://www.nps.gov/yell/\<close>; an attachment whose URL does not begin so
  is in no returned section; when no entry matches, the result is the empty list; and
  on the two entries \<open>http://www.nps.gov/yell/1\<close> and \<open>http://www.nps.gov/acad/2\<close>
  the result is one section, whose \<open>claimed\<close> list is the first entry alone.
\<close>

theorem attachment_sections_claims_yellowstone_only:
  "(\<forall>s \<in> set (attachment_sections t options). \<forall>a \<in> set (claimed s).
       a \<in> set (entries options) \<and> prefix (str ''http://www.nps.gov/yell/'') (url a))
   \<and> (\<forall>a. \<not> prefix (str ''http://www.nps.gov/yell/'') (url a) \<longrightarrow>
          (\<forall>s \<in> set (attachment_sections t options). a \<notin> set (claimed s)))
   \<and> ((\<forall>a \<in> set (entries options). \<not> prefix (str ''http://www.nps.gov/yell/'') (url a)) \<longrightarrow>
          attachment_sections t options = [])
   \<and> (\<exists>s. attachment_sections t
              \<lparr> entries = [\<lparr> url = str ''http://www.nps.gov/yell/1'' \<rparr>,
                           \<lparr> url = str ''http://www.nps.gov/acad/2'' \<rparr>] \<rparr> = [s]
            \<and> claimed s = [\<lparr> url = str ''http://www.nps.gov/yell/1'' \<rparr>])"
proof (intro conjI)
  show "\<forall>s \<in> set (attachment_sections t options). \<forall>a \<in> set (claimed s).
       a \<in> set (entries options) \<and> prefix (str ''http://www.nps.gov/yell/'') (url a)"
    using section_members [of _ t options] by (simp add: yell_prefix_def)
  show "\<forall>a. \<not> prefix (str ''http://www.nps.gov/yell/'') (url a) \<longrightarrow>
          (\<forall>s \<in> set (attachment_sections t options). a \<notin> set (claimed s))"
    using section_members [of _ t options] by (simp add: yell_prefix_def)
  show "(\<forall>a \<in> set (entries options). \<not> prefix (str ''http://www.nps.gov/yell/'') (url a)) \<longrightarrow>
          attachment_sections t options = []"
    by (simp add: claimed_sections claims_iff_prefix yell_prefix_def filter_empty_conv)
  show "\<exists>s. attachment_sections t
              \<lparr> entries = [\<lparr> url = str ''http://www.nps.gov/yell/1'' \<rparr>,
                           \<lparr> url = str ''http://www.nps.gov/acad/2'' \<rparr>] \<rparr> = [s]
            \<and> claimed s = [\<lparr> url = str ''http://www.nps.gov/yell/1'' \<rparr>]"
    by (simp add: claimed_sections claims_iff_prefix yell_prefix_def str_def)
qed

text \<open>The theorem at the two entries of the scenario, and at the second entry alone.\<close>

theorem attachment_sections_claims_yellowstone_only_witness:
  "prefix (str ''http://www.nps.gov/yell/'') (url \<lparr> url = str ''http://www.nps.gov/yell/1'' \<rparr>)
   \<and> map claimed (attachment_sections host0
        \<lparr> entries = [\<lparr> url = str ''http://www.nps.gov/yell/1'' \<rparr>,
                     \<lparr> url = str ''http://www.nps.gov/acad/2'' \<rparr>] \<rparr>)
       = [[\<lparr> url = str ''http://www.nps.gov/yell/1'' \<rparr>]]
   \<and> attachment_sections host0 \<lparr> entries = [\<lparr> url = str ''http://www.nps.gov/acad/2'' \<rparr>] \<rparr> = []"
  using attachment_sections_claims_yellowstone_only
    [of host0 "\<lparr> entries = [\<lparr> url = str ''http://www.nps.gov/acad/2'' \<rparr>] \<rparr>"]
    attachment_sections_claims_yellowstone_only
    [of host0 "\<lparr> entries = [\<lparr> url = str ''http://www.nps.gov/yell/1'' \<rparr>,
                     \<lparr> url = str ''http://www.nps.gov/acad/2'' \<rparr>] \<rparr>"]
  by (auto simp: str_def)

section \<open>Answering or declining\<close>

text \<open>
  Claim C2. On every input, each of \<open>attachment-thumbnail\<close>, \<open>card-from-url\<close> and
  \<open>format-url\<close> gives exactly one of the two outcomes, a descriptor or "not handled",
  and it is the descriptor: the thumbnail of the URL, a promise that is fulfilled with
  the card stub, and the formatted URL; none of the three is "not handled". A
  descriptor is never equal to "not handled", whatever it holds.
\<close>

theorem url_handlers_answer_or_decline:
  "attachment_thumbnail t options =
     Descriptor \<lparr> thumbnail_url = options_url options,
                  thumbnail_title = [0xD83D, 0xDC49, 0x20] @ options_url options @ [0x20, 0xD83D, 0xDC48],
                  image = \<lparr> image_url = HYPERDEV_ICON, logo = True \<rparr>,
                  openText = str ''Open Sesame'' \<rparr>
   \<and> (\<exists>p. card_from_url t options = Descriptor p
        \<and> state p = Fulfilled
            \<lparr> name = [0xD83D, 0xDCBB, 0x20] @ options_url options @ [0x20, 0xD83E, 0xDD14],
              desc = str ''This Power-Up knows cool things about the attached url'' \<rparr>)
   \<and> format_url t options =
       Descriptor \<lparr> format_icon = GRAY_ICON,
                    format_text = [0xD83D, 0xDC49, 0x20] @ options_url options @ [0x20, 0xD83D, 0xDC48] \<rparr>
   \<and> attachment_thumbnail t options \<noteq> NotHandled
   \<and> card_from_url t options \<noteq> NotHandled
   \<and> format_url t options \<noteq> NotHandled
   \<and> ((\<exists>d. attachment_thumbnail t options = Descriptor d) \<noteq> (attachment_thumbnail t options = NotHandled))
   \<and> ((\<exists>d. card_from_url t options = Descriptor d) \<noteq> (card_from_url t options = NotHandled))
   \<and> ((\<exists>d. format_url t options = Descriptor d) \<noteq> (format_url t options = NotHandled))
   \<and> (Descriptor x \<noteq> NotHandled)"
  by (simp add: attachment_thumbnail_def card_from_url_def format_url_def new_Promise_def
      state_def point_right_def point_left_def laptop_def thinking_def str_def)

section \<open>The dynamic badge\<close>

text \<open>
  The product by 100 is the rounded one: the double nearest to \<open>0.015\<close> is below
  \<open>0.015\<close>, its product by 100 rounds to \<open>1.5\<close>, and the badge reads \<open>Dynamic 2\<close>.
\<close>

lemma double_times_example:
  "double_times (1080863910568919 / 72057594037927936) 100 = 3 / 2"
  by code_simp

lemma dynamic_text_example:
  "data_text (fst (dynamic_badge world015)) = str ''Dynamic 2''"
  by (simp add: dynamic_badge_def Math_random_def world015_def Let_def split_beta
      double_times_example toFixed0_def str_def)

lemma floor_times_four:
  fixes r :: real
  assumes "0 \<le> r" "r < 1"
  shows "\<lfloor>r * 4\<rfloor> \<in> {0, 1, 2, 3}"
proof -
  define k where "k = \<lfloor>r * 4\<rfloor>"
  from assms have "0 \<le> k" by (simp add: k_def)
  moreover from assms have "k < 4" by (simp add: k_def floor_less_iff)
  ultimately have "k \<in> {0, 1, 2, 3}" by auto
  then show ?thesis by (simp only: k_def)
qed

lemma randomBadgeColor_range:
  assumes "0 \<le> random w 0" "random w 0 < 1"
  shows "fst (randomBadgeColor w) \<in>
           {Val (str ''green''), Val (str ''yellow''), Val (str ''red''), Val (str ''none'')}"
proof -
  from floor_times_four [OF assms]
  consider "\<lfloor>random w 0 * 4\<rfloor> = 0" | "\<lfloor>random w 0 * 4\<rfloor> = 1"
    | "\<lfloor>random w 0 * 4\<rfloor> = 2" | "\<lfloor>random w 0 * 4\<rfloor> = 3" by auto
  then show ?thesis
    using assms
    by cases (simp_all add: randomBadgeColor_def Math_random_def array_get_def)
qed

lemma random_after_draw: "random (snd (Math_random w)) n = random w (Suc n)"
  by (simp add: Math_random_def)

text \<open>
  Claim C3. Whenever every draw of the source of randomness lies in \<open>[0, 1)\<close>, as
  \<open>Math.random\<close> promises, the color the dynamic badge returns is one of \<open>green\<close>,
  \<open>yellow\<close>, \<open>red\<close>, \<open>none\<close>, and its refresh interval is at least 10 seconds. The
  draws left for the next evaluation lie in \<open>[0, 1)\<close> again, so this holds at every
  evaluation; and the function is the one under \<open>dynamic\<close> in the first badge.
\<close>

theorem dynamic_badge_color_and_refresh:
  assumes "\<forall>n. 0 \<le> random w n \<and> random w n < 1"
  shows "data_color (fst (dynamic_badge w)) \<in>
           {Val (str ''green''), Val (str ''yellow''), Val (str ''red''), Val (str ''none'')}
         \<and> 10 \<le> refresh (fst (dynamic_badge w))
         \<and> (\<forall>n. 0 \<le> random (snd (dynamic_badge w)) n \<and> random (snd (dynamic_badge w)) n < 1)
         \<and> dynamic (hd badges) = Some dynamic_badge"
proof -
  let ?w1 = "snd (Math_random w)"
  have in_range: "0 \<le> random ?w1 0" "random ?w1 0 < 1"
    using assms by (simp_all add: random_after_draw)
  have color: "data_color (fst (dynamic_badge w)) = fst (randomBadgeColor ?w1)"
    by (simp add: dynamic_badge_def Let_def split_beta)
  have world: "snd (dynamic_badge w) = snd (Math_random ?w1)"
    by (simp add: dynamic_badge_def randomBadgeColor_def Let_def split_beta)
  have "refresh (fst (dynamic_badge w)) = 10"
    by (simp add: dynamic_badge_def Let_def split_beta)
  moreover have "dynamic (hd badges) = Some dynamic_badge"
    by (simp add: badges_def)
  ultimately show ?thesis
    using randomBadgeColor_range [OF in_range] assms
    by (simp add: color world random_after_draw)
qed

text \<open>The theorem at the world whose draws are all \<open>1/2\<close>: the color is \<open>red\<close>.\<close>

theorem dynamic_badge_color_and_refresh_witness:
  "(\<forall>n. 0 \<le> random world0 n \<and> random world0 n < 1)
   \<and> data_color (fst (dynamic_badge world0)) = Val (str ''red'')
   \<and> data_color (fst (dynamic_badge world0)) \<in>
           {Val (str ''green''), Val (str ''yellow''), Val (str ''red''), Val (str ''none'')}
   \<and> 10 \<le> refresh (fst (dynamic_badge world0))"
proof -
  have h: "\<forall>n. 0 \<le> random world0 n \<and> random world0 n < 1"
    by (simp add: world0_def)
  have "data_color (fst (dynamic_badge world0)) = Val (str ''red'')"
    by (simp add: dynamic_badge_def randomBadgeColor_def Math_random_def array_get_def
        world0_def Let_def)
  with h dynamic_badge_color_and_refresh [OF h] show ?thesis by simp
qed

section \<open>Buttons\<close>

text \<open>
  Claim C4. \<open>board-buttons\<close> and \<open>card-buttons\<close> each return exactly two button
  descriptors, and each descriptor has a callback or a URL but not both: it is a
  callback button or a link button and not both. In each list the first is the
  callback button and the second the link button.
\<close>

theorem buttons_two_descriptors:
  "length (board_buttons t options) = 2 \<and> length (card_buttons t options') = 2
   \<and> (\<forall>b \<in> set (board_buttons t options) \<union> set (card_buttons t options').
         (button_callback b \<noteq> None) \<noteq> (button_url b \<noteq> None)
         \<and> callback_button b \<noteq> link_button b)
   \<and> map callback_button (board_buttons t options) = [True, False]
   \<and> map link_button (board_buttons t options) = [False, True]
   \<and> map callback_button (card_buttons t options') = [True, False]
   \<and> map link_button (card_buttons t options') = [False, True]"
  by (simp add: board_buttons_def card_buttons_def callback_button_def link_button_def)

text \<open>The theorem at the first card button.\<close>

theorem buttons_two_descriptors_witness:
  "hd (card_buttons host0 ()) \<in> set (board_buttons host0 ()) \<union> set (card_buttons host0 ())
   \<and> button_callback (hd (card_buttons host0 ())) \<noteq> None
   \<and> button_url (hd (card_buttons host0 ())) = None
   \<and> callback_button (hd (card_buttons host0 ())) \<and> \<not> link_button (hd (card_buttons host0 ()))"
  using buttons_two_descriptors [of host0 "()" "()"]
  by (simp add: card_buttons_def callback_button_def link_button_def)

section \<open>Authorization\<close>

text \<open>
  Claim C5. \<open>authorization-status\<close> returns a promise on which \<open>resolve\<close> is called
  exactly once, with \<open>{authorized: true}\<close>, so that the promise is fulfilled with that
  object when the handler returns.
\<close>

theorem authorization_status_resolves_once:
  "authorization_status t options = Promise [Resolve \<lparr> authorized = True \<rparr>]
   \<and> state (authorization_status t options) = Fulfilled \<lparr> authorized = True \<rparr>
   \<and> length (calls_of (authorization_status t options)) = 1"
  by (simp add: authorization_status_def new_Promise_def state_def)


section \<open>The search catalog of the card button\<close>

lemma catalog_cardButtonCallback: "catalog (cardButtonCallback t) = map park_item parkCodes"
  by (simp add: catalog_def cardButtonCallback_def popup_def)

text \<open>
  Claim C6. The popup that the card-button callback opens has exactly 7 items, one
  for each of the codes \<open>acad\<close>, \<open>arch\<close>, \<open>badl\<close>, \<open>crla\<close>, \<open>grca\<close>, \<open>yell\<close>,
  \<open>yose\<close> in this order; the URL of an item is \<open>http://www.nps.gov/\<close>, the code and
  \<open>/\<close>; its label is the park emoji, a space and the code in capitals; the 7 labels
  are pairwise distinct and so are the 7 URLs.
\<close>

theorem card_button_catalog:
  "length (catalog (cardButtonCallback t)) = 7
   \<and> map item_url (catalog (cardButtonCallback t)) =
       map (\<lambda>code. Some (str ''http://www.nps.gov/'' @ code @ str ''/''))
         [str ''acad'', str ''arch'', str ''badl'', str ''crla'', str ''grca'', str ''yell'',
          str ''yose'']
   \<and> map item_text (catalog (cardButtonCallback t)) =
       map (\<lambda>code. national_park @ str '' '' @ code)
         [str ''ACAD'', str ''ARCH'', str ''BADL'', str ''CRLA'', str ''GRCA'', str ''YELL'',
          str ''YOSE'']
   \<and> distinct (map item_text (catalog (cardButtonCallback t)))
   \<and> distinct (map item_url (catalog (cardButtonCallback t)))"
proof (intro conjI)
  show "length (catalog (cardButtonCallback t)) = 7"
    by (simp add: catalog_cardButtonCallback parkCodes_def)
  show "map item_url (catalog (cardButtonCallback t)) =
       map (\<lambda>code. Some (str ''http://www.nps.gov/'' @ code @ str ''/''))
         [str ''acad'', str ''arch'', str ''badl'', str ''crla'', str ''grca'', str ''yell'',
          str ''yose'']"
    by (simp add: catalog_cardButtonCallback parkCodes_def park_item_def Let_def)
  show "map item_text (catalog (cardButtonCallback t)) =
       map (\<lambda>code. national_park @ str '' '' @ code)
         [str ''ACAD'', str ''ARCH'', str ''BADL'', str ''CRLA'', str ''GRCA'', str ''YELL'',
          str ''YOSE'']"
    by (simp add: catalog_cardButtonCallback parkCodes_def park_item_def Let_def
        toUpperCase_def upper_unit_def str_def)
  show "distinct (map item_text (catalog (cardButtonCallback t)))"
    by (simp add: catalog_cardButtonCallback parkCodes_def park_item_def Let_def
        toUpperCase_def upper_unit_def str_def)
  show "distinct (map item_url (catalog (cardButtonCallback t)))"
    by (simp add: catalog_cardButtonCallback parkCodes_def park_item_def Let_def str_def)
qed

section \<open>format-url\<close>

text \<open>
  Claim C7. For every input URL, \<open>format-url\<close> answers with the gray icon and the URL
  between a right-pointing hand with a space and a space with a left-pointing hand;
  for \<open>https://example.com\<close> the text is that URL decorated so.
\<close>

theorem format_url_decorates:
  "format_url t options =
     Descriptor \<lparr> format_icon = GRAY_ICON,
                  format_text = [0xD83D, 0xDC49, 0x20] @ options_url options @ [0x20, 0xD83D, 0xDC48] \<rparr>
   \<and> format_url t \<lparr> options_url = str ''https://example.com'' \<rparr> =
     Descriptor \<lparr> format_icon = GRAY_ICON,
                  format_text = [0xD83D, 0xDC49] @ str '' https://example.com '' @ [0xD83D, 0xDC48] \<rparr>"
  by (simp add: format_url_def point_right_def point_left_def str_def)

section \<open>The badge generator does not reveal the card name\<close>

lemma getBadges_fulfilled:
  assumes "state (card t [str ''name'']) = Fulfilled c"
  shows "getBadges t w =
           (Promise [Resolve badges],
            console_log (str ''We just loaded the card name for fun: '' @ card_name c) w)"
  using assms by (simp add: getBadges_def then_value_def promise_get_def state_def)

text \<open>
  Claim C8. For two hosts that each answer \<open>t.card('name')\<close> with a card, whatever the
  two names, the badge generator returns the same promise from the same world; it is
  what both \<open>card-badges\<close> and \<open>card-detail-badges\<close> return; the name goes to the
  console and nowhere else: the world afterwards is the world before with one more
  line on the console, so no user-interface call is made and no random number drawn;
  and the promise is fulfilled with four badges: the dynamic one, the static one, the
  one whose callback opens the settings popup of height 184, and the one with a URL
  and a target, in this order.
\<close>

theorem getBadges_ignores_card_name:
  assumes "state (card t1 [str ''name'']) = Fulfilled c1"
    and "state (card t2 [str ''name'']) = Fulfilled c2"
  shows "fst (getBadges t1 w) = fst (getBadges t2 w)
   \<and> card_badges t1 options w = getBadges t1 w
   \<and> card_detail_badges t1 options w = getBadges t1 w
   \<and> console (snd (getBadges t1 w)) =
       console w @ [str ''We just loaded the card name for fun: '' @ card_name c1]
   \<and> snd (getBadges t1 w) =
       w\<lparr> console := console w @ [str ''We just loaded the card name for fun: '' @ card_name c1] \<rparr>
   \<and> snd (getBadges t2 w) =
       w\<lparr> console := console w @ [str ''We just loaded the card name for fun: '' @ card_name c2] \<rparr>
   \<and> ui_calls (snd (getBadges t1 w)) = ui_calls w
   \<and> random (snd (getBadges t1 w)) = random w
   \<and> ui_calls (snd (getBadges t2 w)) = ui_calls w
   \<and> random (snd (getBadges t2 w)) = random w
   \<and> (\<exists>b1 b2 b3 b4. state (fst (getBadges t1 w)) = Fulfilled [b1, b2, b3, b4]
        \<and> dynamic b1 = Some dynamic_badge \<and> badge_callback b1 = None \<and> badge_url b1 = None
        \<and> dynamic b2 = None \<and> badge_callback b2 = None \<and> badge_url b2 = None
        \<and> badge_text b2 = Some (str ''Static'')
        \<and> dynamic b3 = None \<and> badge_url b3 = None
        \<and> (\<exists>f. badge_callback b3 = Some f
              \<and> (\<forall>context_arg. f context_arg =
                    OpenPopup \<lparr> popup_title = str ''Card Detail Badge Popup'',
                                popup_items = None, popup_search = None,
                                popup_url = Some (str ''./settings.html''),
                                popup_height = Some 184 \<rparr>))
        \<and> dynamic b4 = None \<and> badge_callback b4 = None
        \<and> badge_url b4 = Some (str ''https://trello.com/home'')
        \<and> badge_target b4 = Some (str ''Trello Landing Page''))"
  by (simp add: getBadges_fulfilled [OF assms(1)] getBadges_fulfilled [OF assms(2)]
      card_badges_def card_detail_badges_def console_log_def state_def badges_def
      badge_popup_callback_def popup_def)

text \<open>The theorem at two hosts whose cards are named \<open>Alpha\<close> and \<open>Beta\<close>.\<close>

theorem getBadges_ignores_card_name_witness:
  "state (card (host_named (str ''Alpha'')) [str ''name'']) = Fulfilled \<lparr> card_name = str ''Alpha'' \<rparr>
   \<and> state (card (host_named (str ''Beta'')) [str ''name'']) = Fulfilled \<lparr> card_name = str ''Beta'' \<rparr>
   \<and> fst (getBadges (host_named (str ''Alpha'')) world0) = fst (getBadges (host_named (str ''Beta'')) world0)
   \<and> console (snd (getBadges (host_named (str ''Alpha'')) world0)) =
       [str ''We just loaded the card name for fun: Alpha'']
   \<and> console (snd (getBadges (host_named (str ''Beta'')) world0)) =
       [str ''We just loaded the card name for fun: Beta'']
   \<and> ui_calls (snd (getBadges (host_named (str ''Alpha'')) world0)) = []
   \<and> ui_calls (snd (getBadges (host_named (str ''Beta'')) world0)) = []"
proof -
  have a: "state (card (host_named (str ''Alpha'')) [str ''name'']) = Fulfilled \<lparr> card_name = str ''Alpha'' \<rparr>"
    by (simp add: host_named_def state_def)
  have b: "state (card (host_named (str ''Beta'')) [str ''name'']) = Fulfilled \<lparr> card_name = str ''Beta'' \<rparr>"
    by (simp add: host_named_def state_def)
  from getBadges_ignores_card_name [OF a b, of world0 "()"] a b show ?thesis
    by (simp add: world0_def str_def)
qed

section \<open>Selecting a park: attach, then close\<close>

lemma park_callback_calls:
  "ui_calls (snd (park_callback u n t w)) =
     ui_calls w @ Attach \<lparr> attach_url = u, attach_name = n \<rparr> #
       (if state (attach t \<lparr> attach_url = u, attach_name = n \<rparr>) = Fulfilled ()
        then [ClosePopup] else [])"
  by (cases "state (attach t \<lparr> attach_url = u, attach_name = n \<rparr>)")
    (simp_all add: park_callback_def t_attach_def t_closePopup_def then_promise_def)

text \<open>
  Claim C9. For every item of the card-button popup, whatever the host and the calls
  made before, selecting the item first calls attach with the item's URL and label,
  and calls close-popup after it exactly when the attach has completed; nothing else
  is called, so a close never comes before the attach.
\<close>

theorem park_item_attaches_then_closes:
  "\<forall>item \<in> set (catalog (cardButtonCallback h)).
     \<exists>u. item_url item = Some u
       \<and> ui_calls (snd (item_callback item t w)) =
           ui_calls w @ Attach \<lparr> attach_url = u, attach_name = item_text item \<rparr> #
             (if state (attach t \<lparr> attach_url = u, attach_name = item_text item \<rparr>) = Fulfilled ()
              then [ClosePopup] else [])"
proof
  fix item
  assume "item \<in> set (catalog (cardButtonCallback h))"
  then obtain code where item: "item = park_item code"
    by (auto simp: catalog_cardButtonCallback)
  show "\<exists>u. item_url item = Some u
       \<and> ui_calls (snd (item_callback item t w)) =
           ui_calls w @ Attach \<lparr> attach_url = u, attach_name = item_text item \<rparr> #
             (if state (attach t \<lparr> attach_url = u, attach_name = item_text item \<rparr>) = Fulfilled ()
              then [ClosePopup] else [])"
    unfolding item by (simp add: park_item_def Let_def park_callback_calls)
qed

text \<open>The theorem at the item for \<open>yell\<close>, on a host that completes the attach.\<close>

theorem park_item_attaches_then_closes_witness:
  "park_item (str ''yell'') \<in> set (catalog (cardButtonCallback host0))
   \<and> ui_calls (snd (item_callback (park_item (str ''yell'')) popup_host0 world0)) =
       [Attach \<lparr> attach_url = str ''http://www.nps.gov/yell/'',
                 attach_name = national_park @ str '' YELL'' \<rparr>, ClosePopup]"
proof -
  have m: "park_item (str ''yell'') \<in> set (catalog (cardButtonCallback host0))"
    by (simp add: catalog_cardButtonCallback parkCodes_def)
  from park_item_attaches_then_closes [of host0 popup_host0 world0] m
  have "\<exists>u. item_url (park_item (str ''yell'')) = Some u
       \<and> ui_calls (snd (item_callback (park_item (str ''yell'')) popup_host0 world0)) =
           ui_calls world0 @ Attach \<lparr> attach_url = u, attach_name = item_text (park_item (str ''yell'')) \<rparr> #
             (if state (attach popup_host0 \<lparr> attach_url = u, attach_name = item_text (park_item (str ''yell'')) \<rparr>) = Fulfilled ()
              then [ClosePopup] else [])"
    by blast
  then have "ui_calls (snd (item_callback (park_item (str ''yell'')) popup_host0 world0)) =
       [Attach \<lparr> attach_url = str ''http://www.nps.gov/yell/'',
                 attach_name = national_park @ str '' YELL'' \<rparr>, ClosePopup]"
    by (auto simp: park_item_def Let_def popup_host0_def world0_def state_def
        toUpperCase_def upper_unit_def str_def)
  with m show ?thesis by simp
qed

section \<open>attachment-thumbnail and card-from-url\<close>

text \<open>
  Claim C10. For every input URL, \<open>attachment-thumbnail\<close> answers with a descriptor
  whose URL is the input and whose title is the input between the two pointing hands,
  which is the text that \<open>format-url\<close> gives; and \<open>card-from-url\<close> never declines: it
  answers with a promise fulfilled with the name made of the laptop, the URL and the
  thinking face, and the fixed description.
\<close>

theorem thumbnail_and_card_from_url:
  "(\<exists>d f. attachment_thumbnail t options = Descriptor d
        \<and> format_url t' options = Descriptor f
        \<and> thumbnail_url d = options_url options
        \<and> thumbnail_title d = [0xD83D, 0xDC49, 0x20] @ options_url options @ [0x20, 0xD83D, 0xDC48]
        \<and> thumbnail_title d = format_text f)
   \<and> (\<exists>p. card_from_url t options = Descriptor p
        \<and> state p = Fulfilled
            \<lparr> name = [0xD83D, 0xDCBB, 0x20] @ options_url options @ [0x20, 0xD83E, 0xDD14],
              desc = str ''This Power-Up knows cool things about the attached url'' \<rparr>)
   \<and> card_from_url t options \<noteq> NotHandled"
  by (simp add: attachment_thumbnail_def format_url_def card_from_url_def new_Promise_def
      state_def point_right_def point_left_def laptop_def thinking_def str_def)


end
